theory Spec2Isabelle
  imports Main
begin

section \<open>Python values and the host environment of main.py\<close>

text \<open>
  Python strings are modelled as \<open>string\<close>. The program only concatenates and joins the
  strings it receives (paths, exclusion entries, tool output), so nothing depends on their
  encoding; \<open>str.upper\<close> is applied to the three literal dictionary keys only, which are
  ASCII.
\<close>

definition nl :: char where
  "nl = CHR 0x0A"

definition sq :: char where
  "sq = CHR 0x27"

definition dq :: char where
  "dq = CHR 0x22"

text \<open>
  The exceptions the handlers of main.py distinguish: \<open>FileNotFoundError\<close> has a handler
  of its own, every other \<open>Exception\<close> is caught by \<open>except Exception as e\<close>. Both
  carry \<open>str(e)\<close>.
\<close>

datatype py_exception = FileNotFoundError string | OtherException string

fun str_exc :: "py_exception \<Rightarrow> string" where
  "str_exc (FileNotFoundError m) = m"
| "str_exc (OtherException m) = m"

text \<open>The object returned by \<open>subprocess.run(..., capture_output=True, text=True, check=False)\<close>.\<close>

record completed_process =
  returncode :: int
  stdout :: string
  stderr :: string

datatype level = INFO | ERROR

text \<open>
  One call of \<open>subprocess.run\<close>: the argument vector, the \<open>cwd\<close> keyword (\<open>None\<close> when the
  call does not pass it) and the files this run had written at the moment of the call.
\<close>

record invocation =
  argv :: "string list"
  cwd :: "string option"
  seen :: "(string \<times> string) list"

text \<open>
  The host: \<open>os.path.isdir\<close>, \<open>subprocess.run\<close>, \<open>tempfile.TemporaryDirectory()\<close> (the
  directory it creates, or the exception), the removal of that directory when the
  \<open>with\<close> block is left, \<open>open(path, "w")\<close> followed by \<open>write\<close>, and the write to
  standard output made by \<open>print\<close> (a closed pipe or a text the stream cannot encode
  raises).
\<close>

record env =
  isdir :: "string \<Rightarrow> bool"
  subprocess_run :: "(string \<times> string) list \<Rightarrow> string list \<Rightarrow> string option
                       \<Rightarrow> py_exception + completed_process"
  mkdtemp :: "py_exception + string"
  rmtree :: "string \<Rightarrow> py_exception option"
  open_write :: "string \<Rightarrow> string \<Rightarrow> py_exception option"
  stdout_write :: "string \<Rightarrow> py_exception option"

text \<open>
  What a run leaves behind: the records passed to \<open>logging\<close>, the calls of
  \<open>subprocess.run\<close> in order, the files written (latest first) and the text printed.
\<close>

record world =
  logged :: "(level \<times> string) list"
  procs :: "invocation list"
  files :: "(string \<times> string) list"
  console :: string

definition world0 :: world where
  "world0 = \<lparr>logged = [], procs = [], files = [], console = []\<rparr>"

definition log_error :: "string \<Rightarrow> world \<Rightarrow> world" where
  "log_error msg w = w\<lparr>logged := logged w @ [(ERROR, msg)]\<rparr>"

definition log_info :: "string \<Rightarrow> world \<Rightarrow> world" where
  "log_info msg w = w\<lparr>logged := logged w @ [(INFO, msg)]\<rparr>"

text \<open>
  \<open>print(s)\<close> writes \<open>s\<close> and a newline to standard output, or raises the exception of
  the stream.
\<close>

definition print :: "env \<Rightarrow> string \<Rightarrow> world \<Rightarrow> py_exception option \<times> world" where
  "print e s w =
     (case stdout_write e (s @ [nl]) of
        Some ex \<Rightarrow> (Some ex, w)
      | None \<Rightarrow> (None, w\<lparr>console := console w @ s @ [nl]\<rparr>))"

definition run_process ::
  "env \<Rightarrow> string list \<Rightarrow> string option \<Rightarrow> world \<Rightarrow> (py_exception + completed_process) \<times> world" where
  "run_process e command dir w =
     (subprocess_run e (files w) command dir,
      w\<lparr>procs := procs w @ [\<lparr>argv = command, cwd = dir, seen = files w\<rparr>]\<rparr>)"

definition write_file :: "env \<Rightarrow> string \<Rightarrow> string \<Rightarrow> world \<Rightarrow> py_exception option \<times> world" where
  "write_file e path content w =
     (case open_write e path content of
        Some ex \<Rightarrow> (Some ex, w)
      | None \<Rightarrow> (None, w\<lparr>files := (path, content) # files w\<rparr>))"

subsection \<open>Built-ins\<close>

text \<open>\<open>sep.join(xs)\<close>: the first item, then the separator before every further item.\<close>

definition py_join :: "string \<Rightarrow> string list \<Rightarrow> string" where
  "py_join sep xs =
     (case xs of [] \<Rightarrow> [] | x # rest \<Rightarrow> foldl (\<lambda>acc y. acc @ sep @ y) x rest)"

text \<open>\<open>str.upper\<close> on ASCII text.\<close>

definition upper_char :: "char \<Rightarrow> char" where
  "upper_char c =
     (let n = (of_char c :: nat) in if 97 \<le> n \<and> n \<le> 122 then char_of (n - 32) else c)"

definition upper :: "string \<Rightarrow> string" where
  "upper s = map upper_char s"

text \<open>\<open>os.path.join\<close> of two components (posixpath).\<close>

definition path_join :: "string \<Rightarrow> string \<Rightarrow> string" where
  "path_join a b =
     (if b \<noteq> [] \<and> hd b = CHR ''/'' then b
      else if a = [] \<or> last a = CHR ''/'' then a @ b
      else a @ ''/'' @ b)"

text \<open>
  An insertion-ordered \<open>dict\<close>: assigning to a key that is present keeps its position,
  assigning to a new key appends it.
\<close>

definition dict_set :: "(string \<times> string) list \<Rightarrow> string \<Rightarrow> string \<Rightarrow> (string \<times> string) list" where
  "dict_set d k v =
     (if k \<in> fst ` set d then map (\<lambda>(k', v'). if k' = k then (k', v) else (k', v')) d
      else d @ [(k, v)])"

section \<open>The tool runners\<close>

subsection \<open>run_flake8\<close>

definition flake8_command :: "string \<Rightarrow> string list \<Rightarrow> string list" where
  "flake8_command project_path ignore =
     [''flake8'', project_path] @
     (if ignore \<noteq> [] then [''--exclude'', py_join '','' ignore] else [])"

definition run_flake8 :: "env \<Rightarrow> string \<Rightarrow> string list \<Rightarrow> world \<Rightarrow> string \<times> world" where
  "run_flake8 e project_path ignore w =
     (case run_process e (flake8_command project_path ignore) None w of
        (Inr result, w') \<Rightarrow> (stdout result, w')
      | (Inl (FileNotFoundError m), w') \<Rightarrow>
          ([], log_error ''Flake8 is not installed. Please install it using 'pip install flake8'.'' w')
      | (Inl (OtherException m), w') \<Rightarrow>
          ([], log_error (''An error occurred while running flake8: '' @ m) w'))"

subsection \<open>run_pylint\<close>

definition pylint_command :: "string \<Rightarrow> string list \<Rightarrow> string list" where
  "pylint_command project_path ignore =
     [''pylint'', project_path] @
     (if ignore \<noteq> [] then (let ignore_str = py_join '','' ignore in [''--ignore'', ignore_str])
      else [])"

definition run_pylint :: "env \<Rightarrow> string \<Rightarrow> string list \<Rightarrow> world \<Rightarrow> string \<times> world" where
  "run_pylint e project_path ignore w =
     (case run_process e (pylint_command project_path ignore) None w of
        (Inr result, w') \<Rightarrow> (stdout result, w')
      | (Inl (FileNotFoundError m), w') \<Rightarrow>
          ([], log_error ''Pylint is not installed. Please install it using 'pip install pylint'.'' w')
      | (Inl (OtherException m), w') \<Rightarrow>
          ([], log_error (''An error occurred while running pylint: '' @ m) w'))"

subsection \<open>run_pyre\<close>

text \<open>The f-string written to \<open>.pyre_configuration.local\<close>, piece by piece.\<close>

definition pyre_config_text :: "string \<Rightarrow> string list \<Rightarrow> string" where
  \<open>pyre_config_text project_path ignore =
     ''{'' @ [nl] @
     ''  "ignore": ['' @ py_join '', '' (map (\<lambda>x. [dq] @ x @ [dq]) ignore) @ ''],'' @ [nl] @
     ''  "typeshed": null,'' @ [nl] @
     ''  "use_buck": false,'' @ [nl] @
     ''  "source_directories": ["'' @ project_path @ ''"]'' @ [nl] @
     ''}''\<close>

definition pyre_command :: "string \<Rightarrow> string \<Rightarrow> string list" where
  "pyre_command project_path pyre_config_path =
     [''pyre'', ''check'', ''--source-directory'', project_path,
      ''--configuration'', pyre_config_path]"

text \<open>The body of the \<open>with tempfile.TemporaryDirectory() as temp_dir\<close> block.\<close>

definition pyre_body ::
  "env \<Rightarrow> string \<Rightarrow> string \<Rightarrow> string list \<Rightarrow> world \<Rightarrow> (py_exception + string) \<times> world" where
  "pyre_body e temp_dir project_path ignore w =
     (let pyre_config_path = path_join temp_dir ''.pyre_configuration.local'' in
      case write_file e pyre_config_path (pyre_config_text project_path ignore) w of
        (Some ex, w1) \<Rightarrow> (Inl ex, w1)
      | (None, w1) \<Rightarrow>
          (case run_process e (pyre_command project_path pyre_config_path) (Some project_path) w1 of
             (Inl ex, w2) \<Rightarrow> (Inl ex, w2)
           | (Inr result, w2) \<Rightarrow> (Inr (stdout result), w2)))"

text \<open>
  Leaving the \<open>with\<close> block removes the temporary directory on every path; an exception
  raised by the removal replaces the outcome of the body.
\<close>

definition in_dir :: "string \<Rightarrow> string \<Rightarrow> bool" where
  "in_dir d p = (take (length d) p = d)"

definition pyre_try ::
  "env \<Rightarrow> string \<Rightarrow> string list \<Rightarrow> world \<Rightarrow> (py_exception + string) \<times> world" where
  "pyre_try e project_path ignore w =
     (case mkdtemp e of
        Inl ex \<Rightarrow> (Inl ex, w)
      | Inr temp_dir \<Rightarrow>
          (case pyre_body e temp_dir project_path ignore w of
             (r, w1) \<Rightarrow>
               (case rmtree e temp_dir of
                  Some ex \<Rightarrow> (Inl ex, w1)
                | None \<Rightarrow>
                    (r, w1\<lparr>files := filter (\<lambda>(p, c). \<not> in_dir temp_dir p) (files w1)\<rparr>))))"

definition run_pyre :: "env \<Rightarrow> string \<Rightarrow> string list \<Rightarrow> world \<Rightarrow> string \<times> world" where
  "run_pyre e project_path ignore w =
     (case pyre_try e project_path ignore w of
        (Inr out, w') \<Rightarrow> (out, w')
      | (Inl (FileNotFoundError m), w') \<Rightarrow>
          ([], log_error
                 ''Pyre-check is not installed. Please install it using 'pip install pyre-check'.'' w')
      | (Inl (OtherException m), w') \<Rightarrow>
          ([], log_error (''An error occurred while running pyre-check: '' @ m) w'))"

section \<open>main\<close>

text \<open>The namespace returned by \<open>parser.parse_args()\<close>.\<close>

record args =
  project_path :: string
  dependencies :: "string list"
  output_file :: "string option"
  ignore :: "string list"

definition valid_dependencies :: "string list" where
  "valid_dependencies = [''flake8'', ''pylint'', ''pyre-check'']"

text \<open>
  The validation loop over \<open>dependencies\<close>: \<open>False\<close> when it left through
  \<open>sys.exit(1)\<close>, at the first name outside \<open>valid_dependencies\<close>.
\<close>

fun check_dependencies :: "string list \<Rightarrow> world \<Rightarrow> bool \<times> world" where
  "check_dependencies [] w = (True, w)"
| "check_dependencies (dep # deps) w =
     (if dep \<notin> set valid_dependencies
      then (False,
            log_error (''Error: '' @ [sq] @ dep @ [sq] @
                       '' is not a valid dependency. Valid options are: '' @
                       ''['flake8', 'pylint', 'pyre-check']'') w)
      else check_dependencies deps w)"

text \<open>The three \<open>if ... in dependencies\<close> blocks, filling \<open>results\<close>.\<close>

definition dispatch :: "env \<Rightarrow> args \<Rightarrow> world \<Rightarrow> (string \<times> string) list \<times> world" where
  "dispatch e a w =
     (let results = [];
          (results, w) =
            (if ''flake8'' \<in> set (dependencies a)
             then (case run_flake8 e (project_path a) (ignore a) (log_info ''Running flake8...'' w) of
                     (r, w') \<Rightarrow> (dict_set results ''flake8'' r, w'))
             else (results, w));
          (results, w) =
            (if ''pylint'' \<in> set (dependencies a)
             then (case run_pylint e (project_path a) (ignore a) (log_info ''Running pylint...'' w) of
                     (r, w') \<Rightarrow> (dict_set results ''pylint'' r, w'))
             else (results, w));
          (results, w) =
            (if ''pyre-check'' \<in> set (dependencies a)
             then (case run_pyre e (project_path a) (ignore a) (log_info ''Running pyre-check...'' w) of
                     (r, w') \<Rightarrow> (dict_set results ''pyre-check'' r, w'))
             else (results, w))
      in (results, w))"

text \<open>The loop \<open>for tool, result in results.items(): output += ...\<close>.\<close>

fun render_loop :: "(string \<times> string) list \<Rightarrow> string \<Rightarrow> string" where
  "render_loop [] output = output"
| "render_loop ((tool, result) # rest) output =
     render_loop rest (output @ ''--- '' @ upper tool @ '' ---'' @ [nl] @ result @ [nl] @ [nl])"

definition render :: "(string \<times> string) list \<Rightarrow> string" where
  "render results = render_loop results []"

text \<open>
  The last statement of \<open>main\<close>. \<open>if output_file:\<close> is false for \<open>None\<close> and for the
  empty string. The file branch is inside \<open>try ... except Exception\<close>; the \<open>print\<close> of
  the other branch is not, so its exception leaves \<open>main\<close>: the first component is the
  exception that does.
\<close>

definition deliver ::
  "env \<Rightarrow> string option \<Rightarrow> string \<Rightarrow> world \<Rightarrow> py_exception option \<times> world" where
  "deliver e out_file output w =
     (case out_file of
        None \<Rightarrow> print e output w
      | Some path \<Rightarrow>
          if path = [] then print e output w
          else (case write_file e path output w of
                  (None, w') \<Rightarrow> (None, log_info (''Results saved to '' @ [sq] @ path @ [sq]) w')
                | (Some ex, w') \<Rightarrow>
                    (None,
                     log_error (''Error writing to file '' @ [sq] @ path @ [sq] @ '': '' @ str_exc ex)
                       w')))"

text \<open>
  How the interpreter ends the process after the last statement: status 1, with a
  traceback, when an exception leaves \<open>main\<close>, status 0 when \<open>main\<close> returns.
\<close>

definition exit_status :: "py_exception option \<times> world \<Rightarrow> int \<times> world" where
  "exit_status r = (case r of (None, w) \<Rightarrow> (0, w) | (Some ex, w) \<Rightarrow> (1, w))"

text \<open>
  \<open>main\<close> on the parsed arguments: the exit status of the process (1 from
  \<open>sys.exit(1)\<close>, otherwise as above) and what the run left behind.
\<close>

definition main :: "env \<Rightarrow> args \<Rightarrow> world \<Rightarrow> int \<times> world" where
  "main e a w =
     (if \<not> isdir e (project_path a)
      then (1, log_error (''Error: '' @ [sq] @ project_path a @ [sq] @ '' is not a valid directory.'') w)
      else (case check_dependencies (dependencies a) w of
              (False, w1) \<Rightarrow> (1, w1)
            | (True, w1) \<Rightarrow>
                (case dispatch e a w1 of
                   (results, w2) \<Rightarrow>
                     exit_status (deliver e (output_file a) (render results) w2))))"

section \<open>Notions used to state the properties\<close>

text \<open>
  The entries of a list in the given order, the separator between consecutive entries and
  nothing after the last one.
\<close>

fun separated :: "string \<Rightarrow> string list \<Rightarrow> string" where
  "separated sep [] = []"
| "separated sep [x] = x"
| "separated sep (x # y # ys) = x @ sep @ separated sep (y # ys)"

text \<open>One section of the report: header line, captured output, blank separator line.\<close>

definition report_section :: "string \<Rightarrow> string \<Rightarrow> string" where
  "report_section tool out = ''--- '' @ upper tool @ '' ---'' @ [nl] @ out @ [nl] @ [nl]"

text \<open>The invocations a run added to those recorded in the world it started from.\<close>

definition new_procs :: "world \<Rightarrow> world \<Rightarrow> invocation list" where
  "new_procs w w' = drop (length (procs w)) (procs w')"

text \<open>
  A structured configuration object as text: one line per field, the fields separated by
  commas, between braces. A list value is written between brackets, a string between
  double quotes.
\<close>

definition quoted :: "string \<Rightarrow> string" where
  "quoted x = [dq] @ x @ [dq]"

definition list_literal :: "string list \<Rightarrow> string" where
  "list_literal items = ''['' @ separated '', '' items @ '']''"

definition config_object :: "(string \<times> string) list \<Rightarrow> string" where
  "config_object members =
     ''{'' @ [nl] @
     separated ('','' @ [nl]) (map (\<lambda>(k, v). ''  '' @ quoted k @ '': '' @ v) members) @ [nl] @
     ''}''"


subsection \<open>Well-formed JSON text\<close>

text \<open>
  The file written by \<open>run_pyre\<close> is read by pyre as JSON. The grammar below is that of
  RFC 8259 and is not part of main.py: a text is well-formed when it is one value, a
  string, a number, \<open>true\<close>, \<open>false\<close>, \<open>null\<close>, an array or an object, between optional white
  space. The text is read one character at a time: \<open>lex_mode\<close> says where inside a token
  the reader is, \<open>expect\<close> what may come next and the list of containers which arrays and
  objects are open. A token is fed to the grammar at its first character.
\<close>

definition bs :: char where
  "bs = CHR 0x5C"

definition is_ws :: "char \<Rightarrow> bool" where
  "is_ws c = (c \<in> set [CHR 0x20, CHR 0x09, CHR 0x0A, CHR 0x0D])"

definition is_control :: "char \<Rightarrow> bool" where
  "is_control c =
     (c \<in> set [CHR 0x00, CHR 0x01, CHR 0x02, CHR 0x03, CHR 0x04, CHR 0x05, CHR 0x06, CHR 0x07,
                CHR 0x08, CHR 0x09, CHR 0x0A, CHR 0x0B, CHR 0x0C, CHR 0x0D, CHR 0x0E, CHR 0x0F,
                CHR 0x10, CHR 0x11, CHR 0x12, CHR 0x13, CHR 0x14, CHR 0x15, CHR 0x16, CHR 0x17,
                CHR 0x18, CHR 0x19, CHR 0x1A, CHR 0x1B, CHR 0x1C, CHR 0x1D, CHR 0x1E, CHR 0x1F])"

definition is_digit :: "char \<Rightarrow> bool" where
  "is_digit c = (c \<in> set ''0123456789'')"

definition is_hex :: "char \<Rightarrow> bool" where
  "is_hex c = (c \<in> set ''0123456789abcdefABCDEF'')"

definition is_lower :: "char \<Rightarrow> bool" where
  "is_lower c = (c \<in> set ''abcdefghijklmnopqrstuvwxyz'')"

definition is_exp :: "char \<Rightarrow> bool" where
  "is_exp c = (c = CHR ''e'' \<or> c = CHR ''E'')"

fun digits1 :: "string \<Rightarrow> bool" where
  "digits1 [] = False"
| "digits1 [c] = is_digit c"
| "digits1 (c # cs) = (is_digit c \<and> digits1 cs)"

definition num_exp :: "string \<Rightarrow> bool" where
  "num_exp s =
     (case s of
        [] \<Rightarrow> False
      | c # cs \<Rightarrow> if c = CHR ''+'' \<or> c = CHR ''-'' then digits1 cs else digits1 (c # cs))"

fun frac_rest :: "string \<Rightarrow> bool" where
  "frac_rest [] = True"
| "frac_rest (c # cs) =
     (if is_digit c then frac_rest cs else if is_exp c then num_exp cs else False)"

definition num_frac :: "string \<Rightarrow> bool" where
  "num_frac s = (case s of [] \<Rightarrow> False | c # cs \<Rightarrow> is_digit c \<and> frac_rest cs)"

definition after_int :: "string \<Rightarrow> bool" where
  "after_int s =
     (case s of
        [] \<Rightarrow> True
      | c # cs \<Rightarrow> if c = CHR ''.'' then num_frac cs else if is_exp c then num_exp cs else False)"

fun int_rest :: "string \<Rightarrow> bool" where
  "int_rest [] = True"
| "int_rest (c # cs) = (if is_digit c then int_rest cs else after_int (c # cs))"

definition num_int :: "string \<Rightarrow> bool" where
  "num_int s =
     (case s of
        [] \<Rightarrow> False
      | c # cs \<Rightarrow>
          if c = CHR ''0'' then after_int cs else if is_digit c then int_rest cs else False)"

definition valid_number :: "string \<Rightarrow> bool" where
  "valid_number s =
     (case s of [] \<Rightarrow> False | c # cs \<Rightarrow> if c = CHR ''-'' then num_int cs else num_int s)"

definition valid_literal :: "string \<Rightarrow> bool" where
  "valid_literal s = (s = ''true'' \<or> s = ''false'' \<or> s = ''null'')"

datatype token = TStr | TScalar | TOpenArr | TCloseArr | TOpenObj | TCloseObj | TColon | TComma

datatype expect = Value | ValueOrClose | KeyOrClose | Key | Colon | After

datatype container = Arr | Obj

fun feed :: "token \<Rightarrow> expect \<Rightarrow> container list \<Rightarrow> (expect \<times> container list) option" where
  "feed TStr Value st = Some (After, st)"
| "feed TStr ValueOrClose st = Some (After, st)"
| "feed TStr KeyOrClose st = Some (Colon, st)"
| "feed TStr Key st = Some (Colon, st)"
| "feed TScalar Value st = Some (After, st)"
| "feed TScalar ValueOrClose st = Some (After, st)"
| "feed TOpenArr Value st = Some (ValueOrClose, Arr # st)"
| "feed TOpenArr ValueOrClose st = Some (ValueOrClose, Arr # st)"
| "feed TOpenObj Value st = Some (KeyOrClose, Obj # st)"
| "feed TOpenObj ValueOrClose st = Some (KeyOrClose, Obj # st)"
| "feed TCloseArr ValueOrClose (Arr # st) = Some (After, st)"
| "feed TCloseArr After (Arr # st) = Some (After, st)"
| "feed TCloseObj KeyOrClose (Obj # st) = Some (After, st)"
| "feed TCloseObj After (Obj # st) = Some (After, st)"
| "feed TColon Colon st = Some (Value, st)"
| "feed TComma After (Arr # st) = Some (Value, Arr # st)"
| "feed TComma After (Obj # st) = Some (Key, Obj # st)"
| "feed tok ex st = None"

datatype lex_mode = Top | InStr | Esc | Uni nat | InNum string | InLit string

definition enter ::
  "lex_mode \<Rightarrow> token \<Rightarrow> expect \<Rightarrow> container list \<Rightarrow> (lex_mode \<times> expect \<times> container list) option" where
  "enter m tok ex st = (case feed tok ex st of None \<Rightarrow> None | Some (ex', st') \<Rightarrow> Some (m, ex', st'))"

definition top_char ::
  "char \<Rightarrow> expect \<Rightarrow> container list \<Rightarrow> (lex_mode \<times> expect \<times> container list) option" where
  "top_char c ex st =
     (if is_ws c then Some (Top, ex, st)
      else if c = CHR ''{'' then enter Top TOpenObj ex st
      else if c = CHR ''}'' then enter Top TCloseObj ex st
      else if c = CHR ''['' then enter Top TOpenArr ex st
      else if c = CHR '']'' then enter Top TCloseArr ex st
      else if c = CHR '':'' then enter Top TColon ex st
      else if c = CHR '','' then enter Top TComma ex st
      else if c = dq then enter InStr TStr ex st
      else if c = CHR ''-'' \<or> is_digit c then enter (InNum [c]) TScalar ex st
      else if is_lower c then enter (InLit [c]) TScalar ex st
      else None)"

fun json_run :: "lex_mode \<Rightarrow> expect \<Rightarrow> container list \<Rightarrow> string \<Rightarrow> bool" where
  "json_run Top ex st [] = (ex = After \<and> st = [])"
| "json_run (InNum acc) ex st [] = (ex = After \<and> st = [] \<and> valid_number acc)"
| "json_run (InLit acc) ex st [] = (ex = After \<and> st = [] \<and> valid_literal acc)"
| "json_run m ex st [] = False"
| "json_run Top ex st (c # cs) =
     (case top_char c ex st of None \<Rightarrow> False | Some (m, ex', st') \<Rightarrow> json_run m ex' st' cs)"
| "json_run InStr ex st (c # cs) =
     (if c = dq then json_run Top ex st cs
      else if c = bs then json_run Esc ex st cs
      else if is_control c then False
      else json_run InStr ex st cs)"
| "json_run Esc ex st (c # cs) =
     (if c \<in> set [dq, bs, CHR ''/'', CHR ''b'', CHR ''f'', CHR ''n'', CHR ''r'', CHR ''t'']
      then json_run InStr ex st cs
      else if c = CHR ''u'' then json_run (Uni 4) ex st cs
      else False)"
| "json_run (Uni 0) ex st (c # cs) = False"
| "json_run (Uni (Suc k)) ex st (c # cs) =
     (if is_hex c then json_run (if k = 0 then InStr else Uni k) ex st cs else False)"
| "json_run (InNum acc) ex st (c # cs) =
     (if is_digit c \<or> is_exp c \<or> c \<in> set ''+-.'' then json_run (InNum (acc @ [c])) ex st cs
      else if valid_number acc
      then (case top_char c ex st of None \<Rightarrow> False | Some (m, ex', st') \<Rightarrow> json_run m ex' st' cs)
      else False)"
| "json_run (InLit acc) ex st (c # cs) =
     (if is_lower c then json_run (InLit (acc @ [c])) ex st cs
      else if valid_literal acc
      then (case top_char c ex st of None \<Rightarrow> False | Some (m, ex', st') \<Rightarrow> json_run m ex' st' cs)
      else False)"

definition json_wellformed :: "string \<Rightarrow> bool" where
  "json_wellformed s = json_run Top Value [] s"

text \<open>
  A string with no double quote, no backslash and no control character: the characters
  that JSON reads as themselves inside a string.
\<close>

definition plain :: "string \<Rightarrow> bool" where
  "plain s = (\<forall>c \<in> set s. c \<noteq> dq \<and> c \<noteq> bs \<and> \<not> is_control c)"


subsection \<open>The value read from a JSON text\<close>

text \<open>
  The same grammar with the value it denotes: the members of an object in the order read,
  duplicates kept. A string is kept as the text between its quotes; for a \<open>plain\<close> string
  that text is the string itself. A token is accepted when its last character has been
  read; \<open>frame\<close> is an array or object that is still open, with the members read so far
  and, for an object, the key waiting for its value.
\<close>

datatype json = JNull | JBool bool | JNum string | JStr string | JArr "json list"
  | JObj "(string \<times> json) list"

datatype frame = FArr "json list" | FObj "(string \<times> json) list" "string option"

type_synonym pstate = "expect \<times> frame list \<times> json option"

fun put :: "json \<Rightarrow> frame list \<Rightarrow> json option \<Rightarrow> pstate option" where
  "put v [] res = Some (After, [], Some v)"
| "put v (FArr els # st) res = Some (After, FArr (els @ [v]) # st, res)"
| "put v (FObj ms (Some k) # st) res = Some (After, FObj (ms @ [(k, v)]) None # st, res)"
| "put v (FObj ms None # st) res = None"

datatype ptoken = PStr string | PScalar json | POpenArr | PCloseArr | POpenObj | PCloseObj
  | PColon | PComma

fun accept :: "ptoken \<Rightarrow> pstate \<Rightarrow> pstate option" where
  "accept (PStr s) (Value, st, res) = put (JStr s) st res"
| "accept (PStr s) (ValueOrClose, st, res) = put (JStr s) st res"
| "accept (PStr s) (KeyOrClose, FObj ms None # st, res) = Some (Colon, FObj ms (Some s) # st, res)"
| "accept (PStr s) (Key, FObj ms None # st, res) = Some (Colon, FObj ms (Some s) # st, res)"
| "accept (PScalar v) (Value, st, res) = put v st res"
| "accept (PScalar v) (ValueOrClose, st, res) = put v st res"
| "accept POpenArr (Value, st, res) = Some (ValueOrClose, FArr [] # st, res)"
| "accept POpenArr (ValueOrClose, st, res) = Some (ValueOrClose, FArr [] # st, res)"
| "accept POpenObj (Value, st, res) = Some (KeyOrClose, FObj [] None # st, res)"
| "accept POpenObj (ValueOrClose, st, res) = Some (KeyOrClose, FObj [] None # st, res)"
| "accept PCloseArr (ValueOrClose, FArr els # st, res) = put (JArr els) st res"
| "accept PCloseArr (After, FArr els # st, res) = put (JArr els) st res"
| "accept PCloseObj (KeyOrClose, FObj ms None # st, res) = put (JObj ms) st res"
| "accept PCloseObj (After, FObj ms None # st, res) = put (JObj ms) st res"
| "accept PColon (Colon, st, res) = Some (Value, st, res)"
| "accept PComma (After, FArr els # st, res) = Some (Value, FArr els # st, res)"
| "accept PComma (After, FObj ms None # st, res) = Some (Key, FObj ms None # st, res)"
| "accept tok \<sigma> = None"

datatype pmode = PTop | PInStr string | PEsc string | PUni nat string | PInNum string
  | PInLit string

definition literal_value :: "string \<Rightarrow> json" where
  "literal_value s = (if s = ''true'' then JBool True else if s = ''false'' then JBool False else JNull)"

definition goto :: "pmode \<Rightarrow> pstate option \<Rightarrow> (pmode \<times> pstate) option" where
  "goto m r = (case r of None \<Rightarrow> None | Some \<sigma> \<Rightarrow> Some (m, \<sigma>))"

definition ptop_char :: "char \<Rightarrow> pstate \<Rightarrow> (pmode \<times> pstate) option" where
  "ptop_char c \<sigma> =
     (if is_ws c then Some (PTop, \<sigma>)
      else if c = CHR ''{'' then goto PTop (accept POpenObj \<sigma>)
      else if c = CHR ''}'' then goto PTop (accept PCloseObj \<sigma>)
      else if c = CHR ''['' then goto PTop (accept POpenArr \<sigma>)
      else if c = CHR '']'' then goto PTop (accept PCloseArr \<sigma>)
      else if c = CHR '':'' then goto PTop (accept PColon \<sigma>)
      else if c = CHR '','' then goto PTop (accept PComma \<sigma>)
      else if c = dq then Some (PInStr [], \<sigma>)
      else if c = CHR ''-'' \<or> is_digit c then Some (PInNum [c], \<sigma>)
      else if is_lower c then Some (PInLit [c], \<sigma>)
      else None)"

definition finish :: "pstate option \<Rightarrow> json option" where
  "finish r =
     (case r of
        None \<Rightarrow> None
      | Some (ex, st, res) \<Rightarrow> if ex = After \<and> st = [] then res else None)"

fun json_parse_run :: "pmode \<Rightarrow> pstate \<Rightarrow> string \<Rightarrow> json option" where
  "json_parse_run PTop \<sigma> [] = finish (Some \<sigma>)"
| "json_parse_run (PInNum acc) \<sigma> [] =
     (if valid_number acc then finish (accept (PScalar (JNum acc)) \<sigma>) else None)"
| "json_parse_run (PInLit acc) \<sigma> [] =
     (if valid_literal acc then finish (accept (PScalar (literal_value acc)) \<sigma>) else None)"
| "json_parse_run m \<sigma> [] = None"
| "json_parse_run PTop \<sigma> (c # cs) =
     (case ptop_char c \<sigma> of None \<Rightarrow> None | Some (m, \<sigma>') \<Rightarrow> json_parse_run m \<sigma>' cs)"
| "json_parse_run (PInStr acc) \<sigma> (c # cs) =
     (if c = dq
      then (case accept (PStr acc) \<sigma> of None \<Rightarrow> None | Some \<sigma>' \<Rightarrow> json_parse_run PTop \<sigma>' cs)
      else if c = bs then json_parse_run (PEsc (acc @ [c])) \<sigma> cs
      else if is_control c then None
      else json_parse_run (PInStr (acc @ [c])) \<sigma> cs)"
| "json_parse_run (PEsc acc) \<sigma> (c # cs) =
     (if c \<in> set [dq, bs, CHR ''/'', CHR ''b'', CHR ''f'', CHR ''n'', CHR ''r'', CHR ''t'']
      then json_parse_run (PInStr (acc @ [c])) \<sigma> cs
      else if c = CHR ''u'' then json_parse_run (PUni 4 (acc @ [c])) \<sigma> cs
      else None)"
| "json_parse_run (PUni 0 acc) \<sigma> (c # cs) = None"
| "json_parse_run (PUni (Suc k) acc) \<sigma> (c # cs) =
     (if is_hex c
      then json_parse_run (if k = 0 then PInStr (acc @ [c]) else PUni k (acc @ [c])) \<sigma> cs
      else None)"
| "json_parse_run (PInNum acc) \<sigma> (c # cs) =
     (if is_digit c \<or> is_exp c \<or> c \<in> set ''+-.'' then json_parse_run (PInNum (acc @ [c])) \<sigma> cs
      else if valid_number acc
      then (case accept (PScalar (JNum acc)) \<sigma> of
              None \<Rightarrow> None
            | Some \<sigma>' \<Rightarrow>
                (case ptop_char c \<sigma>' of None \<Rightarrow> None | Some (m, \<sigma>'') \<Rightarrow> json_parse_run m \<sigma>'' cs))
      else None)"
| "json_parse_run (PInLit acc) \<sigma> (c # cs) =
     (if is_lower c then json_parse_run (PInLit (acc @ [c])) \<sigma> cs
      else if valid_literal acc
      then (case accept (PScalar (literal_value acc)) \<sigma> of
              None \<Rightarrow> None
            | Some \<sigma>' \<Rightarrow>
                (case ptop_char c \<sigma>' of None \<Rightarrow> None | Some (m, \<sigma>'') \<Rightarrow> json_parse_run m \<sigma>'' cs))
      else None)"

definition json_parse :: "string \<Rightarrow> json option" where
  "json_parse s = json_parse_run PTop (Value, [], None) s"

subsection \<open>Concrete hosts and arguments\<close>

text \<open>
  A host where \<open>proj\<close> is the only directory, flake8 reports a finding and exits with
  status 1, pylint is not installed, pyre succeeds, and \<open>/ro/report.txt\<close> cannot be written.
\<close>

definition host_a :: env where
  "host_a =
     \<lparr>isdir = (\<lambda>p. p = ''proj''),
      subprocess_run = (\<lambda>fs command dir.
        if take 1 command = [''flake8'']
        then Inr \<lparr>returncode = 1, stdout = ''a.py:1:1: F401'', stderr = []\<rparr>
        else if take 1 command = [''pylint'']
        then Inl (FileNotFoundError ''[Errno 2] No such file or directory: 'pylint' '')
        else Inr \<lparr>returncode = 0, stdout = ''ok'', stderr = []\<rparr>),
      mkdtemp = Inr ''/tmp/t0'',
      rmtree = (\<lambda>d. None),
      open_write = (\<lambda>path content.
        if path = ''/ro/report.txt'' then Some (OtherException ''Permission denied'') else None),
      stdout_write = (\<lambda>s. None)\<rparr>"




text \<open>The same host with standard output closed.\<close>

definition host_e :: env where
  "host_e = host_a\<lparr>stdout_write := (\<lambda>s. Some (OtherException ''[Errno 32] Broken pipe''))\<rparr>"

definition args_all :: args where
  "args_all =
     \<lparr>project_path = ''proj'', dependencies = [''pyre-check'', ''flake8'', ''pylint'', ''flake8''],
      output_file = None, ignore = [''build'', ''dist'']\<rparr>"

section \<open>Auxiliary facts\<close>

subsection \<open>Validation, rendering and joining\<close>

lemma check_dependencies_ok:
  "set ds \<subseteq> set valid_dependencies \<Longrightarrow> check_dependencies ds w = (True, w)"
  by (induction ds) auto

lemma check_dependencies_bad:
  "\<not> set ds \<subseteq> set valid_dependencies \<Longrightarrow>
   \<exists>m. check_dependencies ds w = (False, log_error m w)"
  by (induction ds) auto

lemma render_loop_acc:
  "render_loop rs acc =
   acc @ concat (map (\<lambda>(tool, result). ''--- '' @ upper tool @ '' ---'' @ [nl] @ result @ [nl, nl]) rs)"
  by (induction rs acc rule: render_loop.induct) auto

lemma foldl_join_acc:
  "foldl (\<lambda>acc y. acc @ sep @ y) x rest = x @ concat (map (\<lambda>y. sep @ y) rest)"
  by (induction rest arbitrary: x) auto

lemma upper_names:
  "upper ''flake8'' = ''FLAKE8''" "upper ''pylint'' = ''PYLINT''" "upper ''pyre-check'' = ''PYRE-CHECK''"
  by code_simp+

subsection \<open>What each runner returns and leaves behind\<close>

lemma run_flake8_files: "files (snd (run_flake8 e p ig w)) = files w"
  by (simp add: run_flake8_def run_process_def log_error_def split: sum.splits py_exception.splits)
lemma run_flake8_console: "console (snd (run_flake8 e p ig w)) = console w"
  by (simp add: run_flake8_def run_process_def log_error_def split: sum.splits py_exception.splits)
lemma run_flake8_procs: "procs (snd (run_flake8 e p ig w)) =
   procs w @ [\<lparr>argv = flake8_command p ig, cwd = None, seen = files w\<rparr>]"
  by (simp add: run_flake8_def run_process_def log_error_def split: sum.splits py_exception.splits)
lemma run_flake8_result: "fst (run_flake8 e p ig w) =
   (case subprocess_run e (files w) (flake8_command p ig) None of Inl ex \<Rightarrow> [] | Inr cp \<Rightarrow> stdout cp)"
  by (simp add: run_flake8_def run_process_def log_error_def split: sum.splits py_exception.splits)

lemma run_pylint_files: "files (snd (run_pylint e p ig w)) = files w"
  by (simp add: run_pylint_def run_process_def log_error_def split: sum.splits py_exception.splits)
lemma run_pylint_console: "console (snd (run_pylint e p ig w)) = console w"
  by (simp add: run_pylint_def run_process_def log_error_def split: sum.splits py_exception.splits)
lemma run_pylint_procs: "procs (snd (run_pylint e p ig w)) =
   procs w @ [\<lparr>argv = pylint_command p ig, cwd = None, seen = files w\<rparr>]"
  by (simp add: run_pylint_def run_process_def log_error_def split: sum.splits py_exception.splits)
lemma run_pylint_result: "fst (run_pylint e p ig w) =
   (case subprocess_run e (files w) (pylint_command p ig) None of Inl ex \<Rightarrow> [] | Inr cp \<Rightarrow> stdout cp)"
  by (simp add: run_pylint_def run_process_def log_error_def split: sum.splits py_exception.splits)

lemma pyre_try_console: "console (snd (pyre_try e p ig w)) = console w"
  by (simp add: pyre_try_def pyre_body_def write_file_def run_process_def Let_def
           split: sum.splits option.splits prod.splits)

lemma run_pyre_console: "console (snd (run_pyre e p ig w)) = console w"
  using pyre_try_console [of e p ig w]
  by (cases "pyre_try e p ig w") (auto simp: run_pyre_def log_error_def split: sum.splits py_exception.splits)

lemma pyre_try_procs: "procs (snd (pyre_try e p ig w)) =
   procs w @
   (case mkdtemp e of
      Inl ex \<Rightarrow> []
    | Inr d \<Rightarrow>
        (case open_write e (path_join d ''.pyre_configuration.local'') (pyre_config_text p ig) of
           Some ex \<Rightarrow> []
         | None \<Rightarrow>
             [\<lparr>argv = pyre_command p (path_join d ''.pyre_configuration.local''), cwd = Some p,
               seen = (path_join d ''.pyre_configuration.local'', pyre_config_text p ig) # files w\<rparr>]))"
  by (simp add: pyre_try_def pyre_body_def write_file_def run_process_def Let_def
           split: sum.splits option.splits prod.splits)

lemma run_pyre_procs: "procs (snd (run_pyre e p ig w)) =
   procs w @
   (case mkdtemp e of
      Inl ex \<Rightarrow> []
    | Inr d \<Rightarrow>
        (case open_write e (path_join d ''.pyre_configuration.local'') (pyre_config_text p ig) of
           Some ex \<Rightarrow> []
         | None \<Rightarrow>
             [\<lparr>argv = pyre_command p (path_join d ''.pyre_configuration.local''), cwd = Some p,
               seen = (path_join d ''.pyre_configuration.local'', pyre_config_text p ig) # files w\<rparr>]))"
proof -
  have "procs (snd (run_pyre e p ig w)) = procs (snd (pyre_try e p ig w))"
    by (cases "pyre_try e p ig w") (auto simp: run_pyre_def log_error_def split: sum.splits py_exception.splits)
  then show ?thesis by (simp only: pyre_try_procs)
qed

lemma pyre_try_result: "fst (pyre_try e p ig w) =
   (case mkdtemp e of
      Inl ex \<Rightarrow> Inl ex
    | Inr d \<Rightarrow>
        (case rmtree e d of
           Some ex \<Rightarrow> Inl ex
         | None \<Rightarrow>
            (case open_write e (path_join d ''.pyre_configuration.local'') (pyre_config_text p ig) of
               Some ex \<Rightarrow> Inl ex
             | None \<Rightarrow>
                (case subprocess_run e
                        ((path_join d ''.pyre_configuration.local'', pyre_config_text p ig) # files w)
                        (pyre_command p (path_join d ''.pyre_configuration.local'')) (Some p) of
                   Inl ex \<Rightarrow> Inl ex
                 | Inr cp \<Rightarrow> Inr (stdout cp)))))"
  by (simp add: pyre_try_def pyre_body_def write_file_def run_process_def Let_def
           split: sum.splits option.splits prod.splits)

lemma run_pyre_result: "fst (run_pyre e p ig w) =
   (case fst (pyre_try e p ig w) of Inl ex \<Rightarrow> [] | Inr out \<Rightarrow> out)"
  by (cases "pyre_try e p ig w") (auto simp: run_pyre_def split: sum.splits py_exception.splits)

lemma run_flake8_cong: "files w = files w' \<Longrightarrow> fst (run_flake8 e p ig w) = fst (run_flake8 e p ig w')"
  by (simp add: run_flake8_result)
lemma run_pylint_cong: "files w = files w' \<Longrightarrow> fst (run_pylint e p ig w) = fst (run_pylint e p ig w')"
  by (simp add: run_pylint_result)
lemma run_pyre_cong:
  assumes "files w = files w'"
  shows "fst (run_pyre e p ig w) = fst (run_pyre e p ig w')"
  unfolding run_pyre_result pyre_try_result assms by (rule refl)

lemma log_info_simps:
  "files (log_info m w) = files w" "procs (log_info m w) = procs w" "console (log_info m w) = console w"
  by (simp_all add: log_info_def)

lemma log_error_simps:
  "files (log_error m w) = files w" "procs (log_error m w) = procs w" "console (log_error m w) = console w"
  by (simp_all add: log_error_def)

subsection \<open>The dispatcher\<close>

lemma dispatch_unfold:
  "dispatch e a w =
    (let w1 = (if ''flake8'' \<in> set (dependencies a)
               then snd (run_flake8 e (project_path a) (ignore a) (log_info ''Running flake8...'' w)) else w);
         w2 = (if ''pylint'' \<in> set (dependencies a)
               then snd (run_pylint e (project_path a) (ignore a) (log_info ''Running pylint...'' w1)) else w1);
         w3 = (if ''pyre-check'' \<in> set (dependencies a)
               then snd (run_pyre e (project_path a) (ignore a) (log_info ''Running pyre-check...'' w2)) else w2)
     in ((if ''flake8'' \<in> set (dependencies a)
          then [(''flake8'', fst (run_flake8 e (project_path a) (ignore a) (log_info ''Running flake8...'' w)))] else []) @
         (if ''pylint'' \<in> set (dependencies a)
          then [(''pylint'', fst (run_pylint e (project_path a) (ignore a) (log_info ''Running pylint...'' w1)))] else []) @
         (if ''pyre-check'' \<in> set (dependencies a)
          then [(''pyre-check'', fst (run_pyre e (project_path a) (ignore a) (log_info ''Running pyre-check...'' w2)))] else []),
         w3))"
  by (simp add: dispatch_def Let_def split_def dict_set_def)

lemma dispatch_results:
  "fst (dispatch e a w) =
     (if ''flake8'' \<in> set (dependencies a)
      then [(''flake8'', fst (run_flake8 e (project_path a) (ignore a) w))] else []) @
     (if ''pylint'' \<in> set (dependencies a)
      then [(''pylint'', fst (run_pylint e (project_path a) (ignore a) w))] else []) @
     (if ''pyre-check'' \<in> set (dependencies a)
      then [(''pyre-check'', fst (run_pyre e (project_path a) (ignore a) w))] else [])"
proof -
  let ?p = "project_path a" and ?ig = "ignore a"
  define w1 where "w1 = (if ''flake8'' \<in> set (dependencies a)
               then snd (run_flake8 e ?p ?ig (log_info ''Running flake8...'' w)) else w)"
  define w2 where "w2 = (if ''pylint'' \<in> set (dependencies a)
               then snd (run_pylint e ?p ?ig (log_info ''Running pylint...'' w1)) else w1)"
  have f1: "files w1 = files w"
    by (simp add: w1_def run_flake8_files log_info_simps)
  have f2: "files w2 = files w"
    by (simp add: w2_def run_pylint_files log_info_simps f1)
  have r1: "fst (run_flake8 e ?p ?ig (log_info ''Running flake8...'' w)) = fst (run_flake8 e ?p ?ig w)"
    by (rule run_flake8_cong) (simp add: log_info_simps)
  have r2: "fst (run_pylint e ?p ?ig (log_info ''Running pylint...'' w1)) = fst (run_pylint e ?p ?ig w)"
    by (rule run_pylint_cong) (simp add: log_info_simps f1)
  have r3: "fst (run_pyre e ?p ?ig (log_info ''Running pyre-check...'' w2)) = fst (run_pyre e ?p ?ig w)"
    by (rule run_pyre_cong) (simp add: log_info_simps f2)
  show ?thesis
    unfolding dispatch_unfold Let_def w1_def [symmetric] w2_def [symmetric] fst_conv r1 r2 r3
    by (rule refl)
qed

lemma dispatch_console: "console (snd (dispatch e a w)) = console w"
  by (simp add: dispatch_unfold Let_def run_flake8_console run_pylint_console run_pyre_console
        log_info_simps)

lemma dispatch_procs:
  "procs (snd (dispatch e a w)) =
     procs w @
     (if ''flake8'' \<in> set (dependencies a)
      then [\<lparr>argv = flake8_command (project_path a) (ignore a), cwd = None, seen = files w\<rparr>] else []) @
     (if ''pylint'' \<in> set (dependencies a)
      then [\<lparr>argv = pylint_command (project_path a) (ignore a), cwd = None, seen = files w\<rparr>] else []) @
     (if ''pyre-check'' \<in> set (dependencies a)
      then (case mkdtemp e of
              Inl ex \<Rightarrow> []
            | Inr d \<Rightarrow>
               (case open_write e (path_join d ''.pyre_configuration.local'')
                       (pyre_config_text (project_path a) (ignore a)) of
                  Some ex \<Rightarrow> []
                | None \<Rightarrow>
                   [\<lparr>argv = pyre_command (project_path a) (path_join d ''.pyre_configuration.local''),
                     cwd = Some (project_path a),
                     seen = (path_join d ''.pyre_configuration.local'',
                             pyre_config_text (project_path a) (ignore a)) # files w\<rparr>]))
      else [])"
  by (simp add: dispatch_unfold Let_def run_flake8_procs run_pylint_procs run_pyre_procs
        run_flake8_files run_pylint_files log_info_simps cong: sum.case_cong option.case_cong)

lemma main_valid:
  assumes "isdir e (project_path a)" and "set (dependencies a) \<subseteq> set valid_dependencies"
  shows "main e a w =
         exit_status
           (deliver e (output_file a) (render (fst (dispatch e a w))) (snd (dispatch e a w)))"
  using assms by (simp add: main_def check_dependencies_ok split_def)

subsection \<open>Joined lists\<close>

lemma separated_Cons: "separated sep (x # rest) = x @ concat (map (\<lambda>y. sep @ y) rest)"
  by (induction rest arbitrary: x) auto

lemma py_join_separated: "py_join sep xs = separated sep xs"
  by (cases xs) (simp_all add: py_join_def foldl_join_acc separated_Cons)

lemma length_separated:
  "length (separated sep xs) = sum_list (map length xs) + (length xs - 1) * length sep"
proof (cases xs)
  case Nil
  then show ?thesis by simp
next
  case (Cons x rest)
  have "length (concat (map (\<lambda>y. sep @ y) rest)) = sum_list (map length rest) + length rest * length sep"
    by (induction rest) auto
  with Cons show ?thesis by (simp add: separated_Cons)
qed

subsection \<open>Log records, keys of the results and started binaries\<close>





lemma dispatch_keys:
  "map fst (fst (dispatch e a w)) = filter (\<lambda>t. t \<in> set (dependencies a)) valid_dependencies"
  by (simp add: dispatch_results valid_dependencies_def)

lemma render_sections:
  "render results = concat (map (\<lambda>(tool, out). report_section tool out) results)"
  by (simp add: render_def render_loop_acc report_section_def)

lemma new_procs_append: "procs w' = procs w @ xs \<Longrightarrow> new_procs w w' = xs"
  by (simp add: new_procs_def)

lemma dispatch_new_procs_heads:
  "map (\<lambda>i. hd (argv i)) (new_procs w (snd (dispatch e a w))) =
     (if ''flake8'' \<in> set (dependencies a) then [''flake8''] else []) @
     (if ''pylint'' \<in> set (dependencies a) then [''pylint''] else []) @
     (if ''pyre-check'' \<in> set (dependencies a) \<and>
         (\<exists>d. mkdtemp e = Inr d \<and>
              open_write e (path_join d ''.pyre_configuration.local'')
                (pyre_config_text (project_path a) (ignore a)) = None)
      then [''pyre''] else [])"
  by (simp add: new_procs_append [OF dispatch_procs] flake8_command_def pylint_command_def
        pyre_command_def split: sum.splits option.splits)

subsection \<open>Delivery\<close>

lemma deliver_stdout:
  "out_file = None \<or> out_file = Some [] \<Longrightarrow> deliver e out_file output w = print e output w"
  by (auto simp: deliver_def)

lemma deliver_written:
  "path \<noteq> [] \<Longrightarrow> open_write e path output = None \<Longrightarrow>
   deliver e (Some path) output w =
   (None,
    log_info (''Results saved to '' @ [sq] @ path @ [sq]) (w\<lparr>files := (path, output) # files w\<rparr>))"
  by (simp add: deliver_def write_file_def)

lemma deliver_failed:
  "path \<noteq> [] \<Longrightarrow> open_write e path output = Some ex \<Longrightarrow>
   deliver e (Some path) output w =
   (None, log_error (''Error writing to file '' @ [sq] @ path @ [sq] @ '': '' @ str_exc ex) w)"
  by (simp add: deliver_def write_file_def)

lemma print_ok:
  "stdout_write e (s @ [nl]) = None \<Longrightarrow> print e s w = (None, w\<lparr>console := console w @ s @ [nl]\<rparr>)"
  by (simp add: print_def)

lemma print_raises: "stdout_write e (s @ [nl]) = Some ex \<Longrightarrow> print e s w = (Some ex, w)"
  by (simp add: print_def)

lemma exit_status_simps:
  "exit_status (None, w) = (0, w)" "exit_status (Some ex, w) = (1, w)"
  by (simp_all add: exit_status_def)

subsection \<open>The configuration text\<close>

lemma pyre_config_text_object:
  "pyre_config_text p ig =
     config_object [(''ignore'', list_literal (map quoted ig)), (''typeshed'', ''null''),
                    (''use_buck'', ''false''), (''source_directories'', list_literal [quoted p])]"
  by (simp add: pyre_config_text_def config_object_def list_literal_def quoted_def
        quoted_def [abs_def] py_join_separated dq_def)

subsection \<open>Hosts with other exit codes, entries of the results\<close>

















subsection \<open>Reading the configuration text as JSON\<close>

lemma json_run_string_body:
  "plain s \<Longrightarrow> json_run InStr ex st (s @ dq # rest) = json_run Top ex st rest"
  by (induction s) (auto simp: plain_def)

lemma top_char_dq: "top_char dq ex st = enter InStr TStr ex st"
  by (simp add: top_char_def is_ws_def dq_def)

lemma json_run_quoted:
  assumes "plain s" and "feed TStr ex st = Some (ex', st')"
  shows "json_run Top ex st (quoted s @ rest) = json_run Top ex' st' rest"
  using assms by (simp add: quoted_def top_char_dq enter_def json_run_string_body)

lemma top_char_comma: "top_char (CHR '','') ex st = enter Top TComma ex st"
  by (simp add: top_char_def is_ws_def dq_def)

lemma top_char_space: "top_char (CHR '' '') ex st = Some (Top, ex, st)"
  by (simp add: top_char_def is_ws_def)

lemma top_char_close_arr: "top_char (CHR '']'') ex st = enter Top TCloseArr ex st"
  by (simp add: top_char_def is_ws_def dq_def)

lemma json_run_more_items:
  "\<forall>y \<in> set xs. plain y \<Longrightarrow>
   json_run Top After (Arr # st) (concat (map (\<lambda>y. '', '' @ quoted y) xs) @ rest) =
   json_run Top After (Arr # st) rest"
proof (induction xs)
  case Nil
  then show ?case by simp
next
  case (Cons y ys)
  have "json_run Top After (Arr # st) (concat (map (\<lambda>y. '', '' @ quoted y) (y # ys)) @ rest) =
        json_run Top Value (Arr # st) (quoted y @ concat (map (\<lambda>y. '', '' @ quoted y) ys) @ rest)"
    by (simp add: top_char_comma top_char_space enter_def)
  also have "\<dots> = json_run Top After (Arr # st) (concat (map (\<lambda>y. '', '' @ quoted y) ys) @ rest)"
    using Cons.prems by (intro json_run_quoted) simp_all
  also have "\<dots> = json_run Top After (Arr # st) rest"
    using Cons by simp
  finally show ?case .
qed

lemma json_run_items:
  assumes "\<forall>y \<in> set xs. plain y"
  shows "json_run Top ValueOrClose (Arr # st) (py_join '', '' (map quoted xs) @ CHR '']'' # rest) =
         json_run Top After st rest"
proof (cases xs)
  case Nil
  then show ?thesis
    by (simp add: py_join_def top_char_close_arr enter_def)
next
  case (Cons x ys)
  have "json_run Top ValueOrClose (Arr # st) (py_join '', '' (map quoted xs) @ CHR '']'' # rest) =
        json_run Top ValueOrClose (Arr # st)
          (quoted x @ concat (map (\<lambda>y. '', '' @ quoted y) ys) @ CHR '']'' # rest)"
    by (simp add: Cons py_join_separated separated_Cons comp_def)
  also have "\<dots> = json_run Top After (Arr # st)
                     (concat (map (\<lambda>y. '', '' @ quoted y) ys) @ CHR '']'' # rest)"
    using assms Cons by (intro json_run_quoted) simp_all
  also have "\<dots> = json_run Top After (Arr # st) (CHR '']'' # rest)"
    using assms Cons by (intro json_run_more_items) simp
  also have "\<dots> = json_run Top After st rest"
    by (simp add: top_char_close_arr enter_def)
  finally show ?thesis .
qed

lemma pyre_config_text_split:
  \<open>pyre_config_text p ig =
     (''{'' @ [nl] @ ''  "ignore": ['') @
     (py_join '', '' (map quoted ig) @ CHR '']'' #
      ('','' @ [nl] @ ''  "typeshed": null,'' @ [nl] @ ''  "use_buck": false,'' @ [nl] @
       ''  "source_directories": ['') @
      (quoted p @ ('']'' @ [nl] @ ''}'')))\<close>
  by (simp add: pyre_config_text_def quoted_def [abs_def] quoted_def dq_def)

lemma json_run_config_head:
  \<open>json_run Top Value [] ((''{'' @ [nl] @ ''  "ignore": ['') @ rest) =
   json_run Top ValueOrClose [Arr, Obj] rest\<close>
  by (simp add: top_char_def is_ws_def enter_def dq_def bs_def nl_def is_control_def)

lemma json_run_config_middle:
  \<open>json_run Top After [Obj]
     (('','' @ [nl] @ ''  "typeshed": null,'' @ [nl] @ ''  "use_buck": false,'' @ [nl] @
       ''  "source_directories": ['') @ rest) =
   json_run Top ValueOrClose [Arr, Obj] rest\<close>
  by (simp add: top_char_def is_ws_def enter_def dq_def bs_def nl_def is_control_def
        is_digit_def is_lower_def valid_literal_def)

lemma json_run_config_tail:
  \<open>json_run Top After [Arr, Obj] ('']'' @ [nl] @ ''}'') = True\<close>
  by (simp add: top_char_def is_ws_def enter_def dq_def nl_def)

lemma config_wellformed:
  assumes "plain p" and "\<forall>x \<in> set ig. plain x"
  shows "json_wellformed (pyre_config_text p ig)"
proof -
  have "json_wellformed (pyre_config_text p ig) =
        json_run Top After [Arr, Obj] ('']'' @ [nl] @ ''}'')"
    unfolding json_wellformed_def pyre_config_text_split json_run_config_head
      json_run_items [OF assms(2)] json_run_config_middle
    by (rule json_run_quoted [OF assms(1)]) simp
  then show ?thesis by (simp only: json_run_config_tail)
qed

subsection \<open>Reading the configuration text as a value\<close>

lemma json_parse_string_body:
  "plain s \<Longrightarrow>
   json_parse_run (PInStr acc) \<sigma> (s @ dq # rest) =
   (case accept (PStr (acc @ s)) \<sigma> of None \<Rightarrow> None | Some \<sigma>' \<Rightarrow> json_parse_run PTop \<sigma>' rest)"
  by (induction s arbitrary: acc) (auto simp: plain_def)

lemma ptop_char_dq: "ptop_char dq \<sigma> = Some (PInStr [], \<sigma>)"
  by (simp add: ptop_char_def is_ws_def dq_def)

lemma json_parse_quoted:
  assumes "plain s" and "accept (PStr s) \<sigma> = Some \<sigma>'"
  shows "json_parse_run PTop \<sigma> (quoted s @ rest) = json_parse_run PTop \<sigma>' rest"
  using assms by (simp add: quoted_def ptop_char_dq json_parse_string_body)

lemma ptop_char_comma: "ptop_char (CHR '','') \<sigma> = goto PTop (accept PComma \<sigma>)"
  by (simp add: ptop_char_def is_ws_def dq_def)

lemma ptop_char_space: "ptop_char (CHR '' '') \<sigma> = Some (PTop, \<sigma>)"
  by (simp add: ptop_char_def is_ws_def)

lemma ptop_char_close_arr: "ptop_char (CHR '']'') \<sigma> = goto PTop (accept PCloseArr \<sigma>)"
  by (simp add: ptop_char_def is_ws_def dq_def)

lemma json_parse_more_items:
  "\<forall>y \<in> set xs. plain y \<Longrightarrow>
   json_parse_run PTop (After, FArr els # st, res)
     (concat (map (\<lambda>y. '', '' @ quoted y) xs) @ rest) =
   json_parse_run PTop (After, FArr (els @ map JStr xs) # st, res) rest"
proof (induction xs arbitrary: els)
  case Nil
  then show ?case by simp
next
  case (Cons y ys)
  have "json_parse_run PTop (After, FArr els # st, res)
          (concat (map (\<lambda>y. '', '' @ quoted y) (y # ys)) @ rest) =
        json_parse_run PTop (Value, FArr els # st, res)
          (quoted y @ concat (map (\<lambda>y. '', '' @ quoted y) ys) @ rest)"
    by (simp add: ptop_char_comma ptop_char_space goto_def)
  also have "\<dots> = json_parse_run PTop (After, FArr (els @ [JStr y]) # st, res)
                     (concat (map (\<lambda>y. '', '' @ quoted y) ys) @ rest)"
    using Cons.prems by (intro json_parse_quoted) simp_all
  also have "\<dots> = json_parse_run PTop (After, FArr ((els @ [JStr y]) @ map JStr ys) # st, res) rest"
    using Cons.prems by (intro Cons.IH) simp
  finally show ?case by simp
qed

lemma json_parse_items:
  assumes "\<forall>y \<in> set xs. plain y"
  shows "json_parse_run PTop (ValueOrClose, FArr [] # st, res)
           (py_join '', '' (map quoted xs) @ CHR '']'' # rest) =
         (case put (JArr (map JStr xs)) st res of
            None \<Rightarrow> None
          | Some \<sigma>' \<Rightarrow> json_parse_run PTop \<sigma>' rest)"
proof (cases xs)
  case Nil
  then show ?thesis
    by (simp add: py_join_def ptop_char_close_arr goto_def split: option.splits)
next
  case (Cons x ys)
  have "json_parse_run PTop (ValueOrClose, FArr [] # st, res)
          (py_join '', '' (map quoted xs) @ CHR '']'' # rest) =
        json_parse_run PTop (ValueOrClose, FArr [] # st, res)
          (quoted x @ concat (map (\<lambda>y. '', '' @ quoted y) ys) @ CHR '']'' # rest)"
    by (simp add: Cons py_join_separated separated_Cons comp_def)
  also have "\<dots> = json_parse_run PTop (After, FArr [JStr x] # st, res)
                     (concat (map (\<lambda>y. '', '' @ quoted y) ys) @ CHR '']'' # rest)"
    using assms Cons by (intro json_parse_quoted) simp_all
  also have "\<dots> = json_parse_run PTop (After, FArr ([JStr x] @ map JStr ys) # st, res)
                     (CHR '']'' # rest)"
    using assms Cons by (intro json_parse_more_items) simp
  also have "\<dots> = (case put (JArr (map JStr xs)) st res of
                      None \<Rightarrow> None
                    | Some \<sigma>' \<Rightarrow> json_parse_run PTop \<sigma>' rest)"
    by (simp add: Cons ptop_char_close_arr goto_def split: option.splits)
  finally show ?thesis .
qed

lemma json_parse_config_head:
  \<open>json_parse_run PTop (Value, [], None) ((''{'' @ [nl] @ ''  "ignore": ['') @ rest) =
   json_parse_run PTop (ValueOrClose, [FArr [], FObj [] (Some ''ignore'')], None) rest\<close>
  by (simp add: ptop_char_def is_ws_def goto_def dq_def bs_def nl_def is_control_def)

lemma json_parse_config_middle:
  \<open>json_parse_run PTop (After, [FObj [(''ignore'', v)] None], None)
     (('','' @ [nl] @ ''  "typeshed": null,'' @ [nl] @ ''  "use_buck": false,'' @ [nl] @
       ''  "source_directories": ['') @ rest) =
   json_parse_run PTop
     (ValueOrClose,
      [FArr [],
       FObj [(''ignore'', v), (''typeshed'', JNull), (''use_buck'', JBool False)]
         (Some ''source_directories'')],
      None) rest\<close>
  by (simp add: ptop_char_def is_ws_def goto_def dq_def bs_def nl_def is_control_def
        is_digit_def is_lower_def valid_literal_def literal_value_def)

lemma json_parse_config_tail:
  \<open>json_parse_run PTop (After, [FArr [JStr p], FObj ms (Some k)], None) ('']'' @ [nl] @ ''}'') =
   Some (JObj (ms @ [(k, JArr [JStr p])]))\<close>
  by (simp add: ptop_char_def is_ws_def goto_def dq_def nl_def finish_def)

lemma config_parsed:
  assumes "plain p" and "\<forall>x \<in> set ig. plain x"
  shows "json_parse (pyre_config_text p ig) =
         Some (JObj [(''ignore'', JArr (map JStr ig)), (''typeshed'', JNull),
                     (''use_buck'', JBool False), (''source_directories'', JArr [JStr p])])"
proof -
  have "json_parse (pyre_config_text p ig) =
        json_parse_run PTop
          (After,
           [FArr [JStr p],
            FObj [(''ignore'', JArr (map JStr ig)), (''typeshed'', JNull), (''use_buck'', JBool False)]
              (Some ''source_directories'')],
           None) ('']'' @ [nl] @ ''}'')"
    unfolding json_parse_def pyre_config_text_split json_parse_config_head
      json_parse_items [OF assms(2)] put.simps append_Nil option.case json_parse_config_middle
    by (rule json_parse_quoted [OF assms(1)]) simp
  also have "\<dots> =
     Some (JObj ([(''ignore'', JArr (map JStr ig)), (''typeshed'', JNull), (''use_buck'', JBool False)] @
                 [(''source_directories'', JArr [JStr p])]))"
    by (rule json_parse_config_tail)
  finally show ?thesis by simp
qed

subsection \<open>Removal of the temporary directory\<close>


section \<open>Properties of the program\<close>

subsection \<open>Validation\<close>

text \<open>
  C1. When the project path is not a directory, or some requested dependency is outside
  \<open>valid_dependencies\<close>, the run ends with exit status 1: no call of
  \<open>subprocess.run\<close> was made, nothing was written to a file or printed, and exactly one
  error record was logged.
\<close>

theorem validation_failure_runs_nothing:
  assumes "\<not> isdir e (project_path a) \<or>
           (\<exists>dep \<in> set (dependencies a). dep \<notin> set valid_dependencies)"
  shows "fst (main e a w) = 1 \<and>
         procs (snd (main e a w)) = procs w \<and>
         files (snd (main e a w)) = files w \<and>
         console (snd (main e a w)) = console w \<and>
         (\<exists>m. logged (snd (main e a w)) = logged w @ [(ERROR, m)])"
proof (cases "isdir e (project_path a)")
  case False
  then show ?thesis by (simp add: main_def log_error_def)
next
  case True
  with assms have "\<not> set (dependencies a) \<subseteq> set valid_dependencies" by auto
  then obtain m where "check_dependencies (dependencies a) w = (False, log_error m w)"
    using check_dependencies_bad by blast
  with True show ?thesis by (simp add: main_def log_error_def)
qed

theorem validation_failure_runs_nothing_witness:
  "\<not> isdir host_a ''proj/setup.py'' \<and>
   fst (main host_a (args_all\<lparr>project_path := ''proj/setup.py''\<rparr>) world0) = 1 \<and>
   procs (snd (main host_a (args_all\<lparr>project_path := ''proj/setup.py''\<rparr>) world0)) = [] \<and>
   console (snd (main host_a (args_all\<lparr>project_path := ''proj/setup.py''\<rparr>) world0)) = [] \<and>
   (\<exists>dep \<in> set [''flake8'', ''mypy'']. dep \<notin> set valid_dependencies) \<and>
   fst (main host_a (args_all\<lparr>dependencies := [''flake8'', ''mypy'']\<rparr>) world0) = 1 \<and>
   procs (snd (main host_a (args_all\<lparr>dependencies := [''flake8'', ''mypy'']\<rparr>) world0)) = []"
  using validation_failure_runs_nothing [of host_a "args_all\<lparr>project_path := ''proj/setup.py''\<rparr>" world0]
        validation_failure_runs_nothing [of host_a "args_all\<lparr>dependencies := [''flake8'', ''mypy'']\<rparr>" world0]
  by (simp add: host_a_def args_all_def world0_def valid_dependencies_def)

subsection \<open>The report\<close>

text \<open>
  C7. The rendered report is the concatenation, in the order of the results, of one section
  per entry: \<open>--- \<close>, the tool name in upper case, \<open> ---\<close>, a newline, the captured
  output and two newlines. Nothing else is in the report, so a tool without an entry has no
  section.
\<close>

theorem report_is_concatenated_sections:
  "render results = concat (map (\<lambda>(tool, out). report_section tool out) results) \<and>
   report_section tool out = ''--- '' @ upper tool @ '' ---'' @ [nl] @ out @ [nl] @ [nl] \<and>
   upper ''flake8'' = ''FLAKE8'' \<and> upper ''pylint'' = ''PYLINT'' \<and>
   upper ''pyre-check'' = ''PYRE-CHECK''"
  by (simp add: render_def render_loop_acc report_section_def upper_names)

subsection \<open>Command lines of flake8 and pylint\<close>

text \<open>
  C4. The flake8 command is \<open>[flake8, project_path]\<close> and the pylint command is
  \<open>[pylint, project_path]\<close>, followed by \<open>--exclude v\<close> (flake8) or \<open>--ignore v\<close>
  (pylint) exactly when the exclusion list is not empty, where \<open>v\<close> is the entries in
  the given order with one comma between consecutive entries: its length is the total
  length of the N entries plus N - 1 separators. These are the vectors passed to
  \<open>subprocess.run\<close>.
\<close>

theorem command_vectors:
  "flake8_command p ig =
     [''flake8'', p] @ (if ig = [] then [] else [''--exclude'', separated '','' ig]) \<and>
   pylint_command p ig =
     [''pylint'', p] @ (if ig = [] then [] else [''--ignore'', separated '','' ig]) \<and>
   new_procs w (snd (run_flake8 e p ig w)) =
     [\<lparr>argv = flake8_command p ig, cwd = None, seen = files w\<rparr>] \<and>
   new_procs w (snd (run_pylint e p ig w)) =
     [\<lparr>argv = pylint_command p ig, cwd = None, seen = files w\<rparr>] \<and>
   length (separated '','' ig) = sum_list (map length ig) + (length ig - 1)"
  by (simp add: flake8_command_def pylint_command_def py_join_separated new_procs_def
        run_flake8_procs run_pylint_procs length_separated)

theorem command_vectors_witness:
  "flake8_command ''proj'' [''build'', ''dist'', ''.venv''] =
     [''flake8'', ''proj'', ''--exclude'', ''build,dist,.venv''] \<and>
   pylint_command ''proj'' [''build'', ''dist'', ''.venv''] =
     [''pylint'', ''proj'', ''--ignore'', ''build,dist,.venv''] \<and>
   flake8_command ''proj'' [] = [''flake8'', ''proj''] \<and>
   pylint_command ''proj'' [] = [''pylint'', ''proj'']"
  using command_vectors [of "''proj''" "[''build'', ''dist'', ''.venv'']"]
        command_vectors [of "''proj''" "[]"]
  by simp

subsection \<open>Selection and order of the tools\<close>

text \<open>
  C2. For a run that passes validation, the report is made of exactly one section per
  selected tool, in the order flake8, pylint, pyre-check, whatever the order and the
  multiplicity of the names in \<open>dependencies\<close>; no binary is started twice and none is
  started for a tool that was not selected.
\<close>

theorem one_section_per_selected_tool:
  assumes "isdir e (project_path a)"
    and "set (dependencies a) \<subseteq> set valid_dependencies"
  shows "main e a w =
           exit_status
             (deliver e (output_file a) (render (fst (dispatch e a w))) (snd (dispatch e a w))) \<and>
         map fst (fst (dispatch e a w)) =
           filter (\<lambda>t. t \<in> set (dependencies a)) [''flake8'', ''pylint'', ''pyre-check''] \<and>
         render (fst (dispatch e a w)) =
           concat (map (\<lambda>(tool, out). report_section tool out) (fst (dispatch e a w))) \<and>
         distinct (map (\<lambda>i. hd (argv i)) (new_procs w (snd (dispatch e a w)))) \<and>
         (\<forall>i \<in> set (new_procs w (snd (dispatch e a w))).
            hd (argv i) = ''flake8'' \<and> ''flake8'' \<in> set (dependencies a) \<or>
            hd (argv i) = ''pylint'' \<and> ''pylint'' \<in> set (dependencies a) \<or>
            hd (argv i) = ''pyre'' \<and> ''pyre-check'' \<in> set (dependencies a))"
proof -
  let ?new = "new_procs w (snd (dispatch e a w))"
  have heads: "map (\<lambda>i. hd (argv i)) ?new =
     (if ''flake8'' \<in> set (dependencies a) then [''flake8''] else []) @
     (if ''pylint'' \<in> set (dependencies a) then [''pylint''] else []) @
     (if ''pyre-check'' \<in> set (dependencies a) \<and>
         (\<exists>d. mkdtemp e = Inr d \<and>
              open_write e (path_join d ''.pyre_configuration.local'')
                (pyre_config_text (project_path a) (ignore a)) = None)
      then [''pyre''] else [])"
    by (rule dispatch_new_procs_heads)
  have d: "distinct (map (\<lambda>i. hd (argv i)) ?new)"
    unfolding heads by simp
  have m: "\<forall>i \<in> set ?new.
            hd (argv i) = ''flake8'' \<and> ''flake8'' \<in> set (dependencies a) \<or>
            hd (argv i) = ''pylint'' \<and> ''pylint'' \<in> set (dependencies a) \<or>
            hd (argv i) = ''pyre'' \<and> ''pyre-check'' \<in> set (dependencies a)"
  proof
    fix i assume "i \<in> set ?new"
    then have "hd (argv i) \<in> set (map (\<lambda>i. hd (argv i)) ?new)" by simp
    then show "hd (argv i) = ''flake8'' \<and> ''flake8'' \<in> set (dependencies a) \<or>
            hd (argv i) = ''pylint'' \<and> ''pylint'' \<in> set (dependencies a) \<or>
            hd (argv i) = ''pyre'' \<and> ''pyre-check'' \<in> set (dependencies a)"
      unfolding heads by (auto split: if_splits)
  qed
  have k: "map fst (fst (dispatch e a w)) =
           filter (\<lambda>t. t \<in> set (dependencies a)) [''flake8'', ''pylint'', ''pyre-check'']"
    using dispatch_keys [of e a w] by (simp add: valid_dependencies_def)
  from main_valid [OF assms] k render_sections d m show ?thesis by blast
qed

theorem one_section_per_selected_tool_witness:
  "isdir host_a (project_path args_all) \<and>
   set (dependencies args_all) \<subseteq> set valid_dependencies \<and>
   dependencies args_all = [''pyre-check'', ''flake8'', ''pylint'', ''flake8''] \<and>
   map fst (fst (dispatch host_a args_all world0)) = [''flake8'', ''pylint'', ''pyre-check''] \<and>
   fst (main host_a args_all world0) = 0"
  using one_section_per_selected_tool [of host_a args_all world0]
  by (simp add: host_a_def args_all_def valid_dependencies_def deliver_def print_def
        exit_status_def)

subsection \<open>Exit status and delivery of the report\<close>

text \<open>
  C8, as amended. For a run that passes validation: with no output file, or with an empty
  output path (which \<open>if output_file:\<close> treats alike), the report is printed, and the exit
  status is 0 when the write to standard output raises nothing. With a non-empty output
  path the exit status is 0 in every case: the report is written to that file and nothing
  is printed, and when the write fails the failure is logged as an error, no file is
  written and nothing is printed. None of this depends on what the tools did.
\<close>

theorem delivery_and_exit_status:
  assumes "isdir e (project_path a)"
    and "set (dependencies a) \<subseteq> set valid_dependencies"
  shows "(output_file a = None \<or> output_file a = Some [] \<longrightarrow>
            stdout_write e (render (fst (dispatch e a w)) @ [nl]) = None \<longrightarrow>
            main e a w =
              (0, (snd (dispatch e a w))
                    \<lparr>console := console w @ render (fst (dispatch e a w)) @ [nl]\<rparr>)) \<and>
         (\<forall>path. output_file a = Some path \<and> path \<noteq> [] \<and>
                 open_write e path (render (fst (dispatch e a w))) = None \<longrightarrow>
            main e a w =
              (0, log_info (''Results saved to '' @ [sq] @ path @ [sq])
                    ((snd (dispatch e a w))
                       \<lparr>files := (path, render (fst (dispatch e a w))) # files (snd (dispatch e a w))\<rparr>)) \<and>
            console (snd (main e a w)) = console w) \<and>
         (\<forall>path ex. output_file a = Some path \<and> path \<noteq> [] \<and>
                 open_write e path (render (fst (dispatch e a w))) = Some ex \<longrightarrow>
            main e a w =
              (0, log_error (''Error writing to file '' @ [sq] @ path @ [sq] @ '': '' @ str_exc ex)
                    (snd (dispatch e a w))) \<and>
            files (snd (main e a w)) = files (snd (dispatch e a w)) \<and>
            console (snd (main e a w)) = console w)"
proof -
  let ?r = "render (fst (dispatch e a w))" and ?w2 = "snd (dispatch e a w)"
  have m: "main e a w = exit_status (deliver e (output_file a) ?r ?w2)"
    by (rule main_valid [OF assms])
  have 1: "output_file a = None \<or> output_file a = Some [] \<longrightarrow>
            stdout_write e (?r @ [nl]) = None \<longrightarrow>
            main e a w = (0, ?w2\<lparr>console := console w @ ?r @ [nl]\<rparr>)"
    by (auto simp: m deliver_stdout print_ok exit_status_simps dispatch_console)
  have 2: "\<forall>path. output_file a = Some path \<and> path \<noteq> [] \<and> open_write e path ?r = None \<longrightarrow>
            main e a w =
              (0, log_info (''Results saved to '' @ [sq] @ path @ [sq])
                    (?w2\<lparr>files := (path, ?r) # files ?w2\<rparr>)) \<and>
            console (snd (main e a w)) = console w"
    by (auto simp: m deliver_written exit_status_simps log_info_simps dispatch_console)
  have 3: "\<forall>path ex. output_file a = Some path \<and> path \<noteq> [] \<and> open_write e path ?r = Some ex \<longrightarrow>
            main e a w =
              (0, log_error (''Error writing to file '' @ [sq] @ path @ [sq] @ '': '' @ str_exc ex) ?w2) \<and>
            files (snd (main e a w)) = files ?w2 \<and>
            console (snd (main e a w)) = console w"
    by (auto simp: m deliver_failed exit_status_simps log_error_simps dispatch_console)
  from 1 2 3 show ?thesis by blast
qed

theorem delivery_and_exit_status_witness:
  "isdir host_a (project_path args_all) \<and>
   set (dependencies args_all) \<subseteq> set valid_dependencies \<and>
   main host_a args_all world0 =
     (0, (snd (dispatch host_a args_all world0))
           \<lparr>console := render (fst (dispatch host_a args_all world0)) @ [nl]\<rparr>) \<and>
   fst (main host_a (args_all\<lparr>output_file := Some ''out.txt''\<rparr>) world0) = 0 \<and>
   console (snd (main host_a (args_all\<lparr>output_file := Some ''out.txt''\<rparr>) world0)) = [] \<and>
   fst (main host_a (args_all\<lparr>output_file := Some ''/ro/report.txt''\<rparr>) world0) = 0 \<and>
   files (snd (main host_a (args_all\<lparr>output_file := Some ''/ro/report.txt''\<rparr>) world0)) =
     files (snd (dispatch host_a (args_all\<lparr>output_file := Some ''/ro/report.txt''\<rparr>) world0)) \<and>
   console (snd (main host_a (args_all\<lparr>output_file := Some ''/ro/report.txt''\<rparr>) world0)) = []"
proof -
  let ?b = "args_all\<lparr>output_file := Some ''out.txt''\<rparr>"
  let ?c = "args_all\<lparr>output_file := Some ''/ro/report.txt''\<rparr>"
  have d: "isdir host_a (project_path args_all)" "isdir host_a (project_path ?b)"
    "isdir host_a (project_path ?c)"
    by (simp_all add: host_a_def args_all_def)
  have v: "set (dependencies args_all) \<subseteq> set valid_dependencies"
    "set (dependencies ?b) \<subseteq> set valid_dependencies"
    "set (dependencies ?c) \<subseteq> set valid_dependencies"
    by (simp_all add: args_all_def valid_dependencies_def)
  have o: "output_file args_all = None" "output_file ?b = Some ''out.txt''"
    "output_file ?c = Some ''/ro/report.txt''"
    by (simp_all add: args_all_def)
  have so: "stdout_write host_a (render (fst (dispatch host_a args_all world0)) @ [nl]) = None"
    by (simp add: host_a_def)
  have wb: "open_write host_a ''out.txt'' (render (fst (dispatch host_a ?b world0))) = None"
    by (simp add: host_a_def)
  have wc: "open_write host_a ''/ro/report.txt'' (render (fst (dispatch host_a ?c world0))) =
              Some (OtherException ''Permission denied'')"
    by (simp add: host_a_def)
  have c0: "console world0 = []" by (simp add: world0_def)
  note ta = delivery_and_exit_status [OF d(1) v(1), of world0]
  note tb = delivery_and_exit_status [OF d(2) v(2), of world0]
  note tc = delivery_and_exit_status [OF d(3) v(3), of world0]
  from ta o(1) so c0 have a1: "main host_a args_all world0 =
     (0, (snd (dispatch host_a args_all world0))
           \<lparr>console := render (fst (dispatch host_a args_all world0)) @ [nl]\<rparr>)"
    by simp
  from tb o(2) wb c0 have b1: "fst (main host_a ?b world0) = 0"
    and b2: "console (snd (main host_a ?b world0)) = []"
    by auto
  from tc o(3) wc c0 have c1: "fst (main host_a ?c world0) = 0"
    and c2: "files (snd (main host_a ?c world0)) = files (snd (dispatch host_a ?c world0))"
    and c3: "console (snd (main host_a ?c world0)) = []"
    by auto
  from d(1) v(1) a1 b1 b2 c1 c2 c3 show ?thesis by blast
qed

text \<open>
  An output path that is given but empty: the report is printed and no file is written.
  Standard output closed: the exception of \<open>print\<close> leaves \<open>main\<close> and the exit status is 1.
\<close>

theorem empty_output_path_and_closed_stdout_counterexample:
  "output_file (args_all\<lparr>dependencies := [''flake8''], output_file := Some []\<rparr>) = Some [] \<and>
   main host_a (args_all\<lparr>dependencies := [''flake8''], output_file := Some []\<rparr>) world0 =
     (0, \<lparr>logged = [(INFO, ''Running flake8...'')],
          procs = [\<lparr>argv = [''flake8'', ''proj'', ''--exclude'', ''build,dist''], cwd = None,
                    seen = []\<rparr>],
          files = [],
          console = ''--- FLAKE8 ---'' @ [nl] @ ''a.py:1:1: F401'' @ [nl, nl, nl]\<rparr>) \<and>
   fst (main host_e (args_all\<lparr>dependencies := [''flake8'']\<rparr>) world0) = 1"
  by code_simp

subsection \<open>The empty selection\<close>


subsection \<open>The pyre invocation and its configuration file\<close>

text \<open>
  C5, as amended. Whenever \<open>run_pyre\<close> starts a process, it is
  \<open>[pyre, check, --source-directory, project_path, --configuration, config_path]\<close> with
  the project path as working directory and the configuration file already written; the
  exclusion list has no part in the argument vector. The text of the configuration file is
  the template of four fields, \<open>ignore\<close>, \<open>typeshed\<close>, \<open>use_buck\<close> and
  \<open>source_directories\<close>, with every exclusion entry and the project path between double
  quotes (\<open>[]\<close> for the empty list). When neither the project path nor any entry contains
  a double quote, a backslash or a control character, the file read as JSON is an object
  of exactly these four fields: \<open>ignore\<close> the list of the entries, \<open>typeshed\<close> null,
  \<open>use_buck\<close> false and \<open>source_directories\<close> the list holding the project path only.
\<close>

theorem pyre_invocation_and_configuration:
  "new_procs w (snd (run_pyre e p ig w)) =
     (case mkdtemp e of
        Inl ex \<Rightarrow> []
      | Inr d \<Rightarrow>
          (case open_write e (path_join d ''.pyre_configuration.local'') (pyre_config_text p ig) of
             Some ex \<Rightarrow> []
           | None \<Rightarrow>
               [\<lparr>argv = [''pyre'', ''check'', ''--source-directory'', p, ''--configuration'',
                          path_join d ''.pyre_configuration.local''],
                 cwd = Some p,
                 seen = (path_join d ''.pyre_configuration.local'', pyre_config_text p ig) # files w\<rparr>])) \<and>
   pyre_config_text p ig =
     config_object [(''ignore'', list_literal (map quoted ig)), (''typeshed'', ''null''),
                    (''use_buck'', ''false''), (''source_directories'', list_literal [quoted p])] \<and>
   list_literal (map quoted []) = ''[]'' \<and>
   quoted x = [dq] @ x @ [dq] \<and>
   (plain p \<and> (\<forall>x \<in> set ig. plain x) \<longrightarrow>
      json_parse (pyre_config_text p ig) =
        Some (JObj [(''ignore'', JArr (map JStr ig)), (''typeshed'', JNull),
                    (''use_buck'', JBool False), (''source_directories'', JArr [JStr p])]))"
proof -
  have 1: "new_procs w (snd (run_pyre e p ig w)) =
     (case mkdtemp e of
        Inl ex \<Rightarrow> []
      | Inr d \<Rightarrow>
          (case open_write e (path_join d ''.pyre_configuration.local'') (pyre_config_text p ig) of
             Some ex \<Rightarrow> []
           | None \<Rightarrow>
               [\<lparr>argv = [''pyre'', ''check'', ''--source-directory'', p, ''--configuration'',
                          path_join d ''.pyre_configuration.local''],
                 cwd = Some p,
                 seen = (path_join d ''.pyre_configuration.local'', pyre_config_text p ig) # files w\<rparr>]))"
    using new_procs_append [OF run_pyre_procs, of w e p ig]
    by (simp add: pyre_command_def cong: sum.case_cong option.case_cong)
  have 3: "list_literal (map quoted []) = ''[]''" by (simp add: list_literal_def)
  have 4: "quoted x = [dq] @ x @ [dq]" by (simp add: quoted_def)
  have 5: "plain p \<and> (\<forall>x \<in> set ig. plain x) \<longrightarrow>
      json_parse (pyre_config_text p ig) =
        Some (JObj [(''ignore'', JArr (map JStr ig)), (''typeshed'', JNull),
                    (''use_buck'', JBool False), (''source_directories'', JArr [JStr p])])"
    using config_parsed by blast
  from 1 pyre_config_text_object 3 4 5 show ?thesis by blast
qed

theorem pyre_invocation_and_configuration_witness:
  \<open>new_procs world0 (snd (run_pyre host_a ''proj'' [''build'', ''dist''] world0)) =
     [\<lparr>argv = [''pyre'', ''check'', ''--source-directory'', ''proj'', ''--configuration'',
                ''/tmp/t0/.pyre_configuration.local''],
       cwd = Some ''proj'',
       seen = [(''/tmp/t0/.pyre_configuration.local'',
                pyre_config_text ''proj'' [''build'', ''dist''])]\<rparr>] \<and>
   json_parse (pyre_config_text ''proj'' [''build'', ''dist'']) =
     Some (JObj [(''ignore'', JArr [JStr ''build'', JStr ''dist'']), (''typeshed'', JNull),
                 (''use_buck'', JBool False), (''source_directories'', JArr [JStr ''proj''])]) \<and>
   json_parse (pyre_config_text ''proj'' []) =
     Some (JObj [(''ignore'', JArr []), (''typeshed'', JNull),
                 (''use_buck'', JBool False), (''source_directories'', JArr [JStr ''proj''])])\<close>
proof -
  note t = pyre_invocation_and_configuration [of world0 host_a "''proj''" "[''build'', ''dist'']"]
  note u = pyre_invocation_and_configuration [of world0 host_a "''proj''" "[]"]
  have h: "plain ''proj''" "\<forall>x \<in> set [''build'', ''dist'']. plain x"
    "\<forall>x \<in> set ([] :: string list). plain x"
    by (simp_all add: plain_def dq_def bs_def is_control_def)
  have m: "mkdtemp host_a = Inr ''/tmp/t0''"
    "open_write host_a (path_join ''/tmp/t0'' ''.pyre_configuration.local'')
       (pyre_config_text ''proj'' [''build'', ''dist'']) = None"
    "path_join ''/tmp/t0'' ''.pyre_configuration.local'' = ''/tmp/t0/.pyre_configuration.local''"
    "files world0 = []"
    by (simp_all add: host_a_def path_join_def world0_def)
  from t have 1: "new_procs world0 (snd (run_pyre host_a ''proj'' [''build'', ''dist''] world0)) =
     [\<lparr>argv = [''pyre'', ''check'', ''--source-directory'', ''proj'', ''--configuration'',
                ''/tmp/t0/.pyre_configuration.local''],
       cwd = Some ''proj'',
       seen = [(''/tmp/t0/.pyre_configuration.local'',
                pyre_config_text ''proj'' [''build'', ''dist''])]\<rparr>]"
    by (simp add: host_a_def world0_def path_join_def)
  from t h(1,2) have "json_parse (pyre_config_text ''proj'' [''build'', ''dist'']) =
     Some (JObj [(''ignore'', JArr (map JStr [''build'', ''dist''])), (''typeshed'', JNull),
                 (''use_buck'', JBool False), (''source_directories'', JArr [JStr ''proj''])])"
    by blast
  then have 2: "json_parse (pyre_config_text ''proj'' [''build'', ''dist'']) =
     Some (JObj [(''ignore'', JArr [JStr ''build'', JStr ''dist'']), (''typeshed'', JNull),
                 (''use_buck'', JBool False), (''source_directories'', JArr [JStr ''proj''])])"
    by simp
  from u h(1,3) have "json_parse (pyre_config_text ''proj'' []) =
     Some (JObj [(''ignore'', JArr (map JStr [])), (''typeshed'', JNull),
                 (''use_buck'', JBool False), (''source_directories'', JArr [JStr ''proj''])])"
    by blast
  then have 3: "json_parse (pyre_config_text ''proj'' []) =
     Some (JObj [(''ignore'', JArr []), (''typeshed'', JNull),
                 (''use_buck'', JBool False), (''source_directories'', JArr [JStr ''proj''])])"
    by simp
  from 1 2 3 show ?thesis by blast
qed

text \<open>
  Without that condition the fields are not always four, nor the source directory one: an
  entry that closes its own quotes adds a field \<open>extra\<close>, a project path that does so adds
  a second source directory.
\<close>

theorem injected_field_counterexample:
  \<open>json_parse (pyre_config_text ''proj'' [''x"], "extra": ["y'']) =
     Some (JObj [(''ignore'', JArr [JStr ''x'']), (''extra'', JArr [JStr ''y'']),
                 (''typeshed'', JNull), (''use_buck'', JBool False),
                 (''source_directories'', JArr [JStr ''proj''])]) \<and>
   json_parse (pyre_config_text ''a", "/etc'' []) =
     Some (JObj [(''ignore'', JArr []), (''typeshed'', JNull), (''use_buck'', JBool False),
                 (''source_directories'', JArr [JStr ''a'', JStr ''/etc''])])\<close>
  by code_simp

subsection \<open>Exit codes of the tools\<close>





subsection \<open>Tools that fail to start\<close>



subsection \<open>Well-formedness of the configuration text\<close>

text \<open>
  C9, as amended. The configuration text is an interpolation of the project path and of
  the exclusion entries as they are, each between double quotes, with nothing escaped.
  When neither the project path nor any entry contains a double quote, a backslash or a
  control character, the text is well-formed JSON. With such characters it may be
  malformed (an entry that is one double quote or one backslash, a tab in the project
  path), and an entry holding \<open>a", "b\<close> gives the very text of the two entries \<open>a\<close> and
  \<open>b\<close>.
\<close>

theorem configuration_text_wellformed_for_plain_input:
  \<open>pyre_config_text p ig =
     ''{'' @ [nl] @ ''  "ignore": ['' @
     py_join '', '' (map (\<lambda>x. [dq] @ x @ [dq]) ig) @
     ''],'' @ [nl] @ ''  "typeshed": null,'' @ [nl] @ ''  "use_buck": false,'' @ [nl] @
     ''  "source_directories": ['' @ [dq] @ p @ [dq] @ '']'' @ [nl] @ ''}'' \<and>
   (plain p \<and> (\<forall>x \<in> set ig. plain x) \<longrightarrow> json_wellformed (pyre_config_text p ig)) \<and>
   \<not> json_wellformed (pyre_config_text ''proj'' [[dq]]) \<and>
   \<not> json_wellformed (pyre_config_text ''proj'' [[bs]]) \<and>
   \<not> json_wellformed (pyre_config_text [CHR 0x09] []) \<and>
   pyre_config_text ''proj'' [''a'' @ [dq] @ '', '' @ [dq] @ ''b''] =
     pyre_config_text ''proj'' [''a'', ''b'']\<close>
proof -
  have 1: \<open>pyre_config_text p ig =
     ''{'' @ [nl] @ ''  "ignore": ['' @
     py_join '', '' (map (\<lambda>x. [dq] @ x @ [dq]) ig) @
     ''],'' @ [nl] @ ''  "typeshed": null,'' @ [nl] @ ''  "use_buck": false,'' @ [nl] @
     ''  "source_directories": ['' @ [dq] @ p @ [dq] @ '']'' @ [nl] @ ''}''\<close>
    by (simp add: pyre_config_text_def dq_def)
  have 2: "plain p \<and> (\<forall>x \<in> set ig. plain x) \<longrightarrow> json_wellformed (pyre_config_text p ig)"
    using config_wellformed by blast
  have 3: "\<not> json_wellformed (pyre_config_text ''proj'' [[dq]])"
    by code_simp
  have 4: "\<not> json_wellformed (pyre_config_text ''proj'' [[bs]])"
    by code_simp
  have 5: "\<not> json_wellformed (pyre_config_text [CHR 0x09] [])"
    by code_simp
  have 6: "pyre_config_text ''proj'' [''a'' @ [dq] @ '', '' @ [dq] @ ''b''] =
     pyre_config_text ''proj'' [''a'', ''b'']"
    by (simp add: pyre_config_text_def py_join_def)
  from 1 2 3 4 5 6 show ?thesis by blast
qed

theorem configuration_text_wellformed_for_plain_input_witness:
  "json_wellformed (pyre_config_text ''proj'' [''build'', ''dist''])"
proof -
  have h: "plain ''proj''" "\<forall>x \<in> set [''build'', ''dist'']. plain x"
    by (simp_all add: plain_def dq_def bs_def is_control_def)
  from configuration_text_wellformed_for_plain_input [of "''proj''" "[''build'', ''dist'']"] h
  show ?thesis by blast
qed

text \<open>
  The condition is not necessary: the entry of two backslashes contains a backslash, and
  the text, where it reads as an escaped backslash, is well-formed.
\<close>

theorem wellformed_despite_backslash_counterexample:
  "json_wellformed (pyre_config_text ''proj'' [[bs, bs]]) \<and> bs \<in> set [bs, bs]"
  by code_simp

end
